theory Spec2Isabelle
  imports Complex_Main
begin

section \<open>JavaScript values used by the stock view\<close>

subsection \<open>Strings\<close>

text \<open>
  A JavaScript string is modelled as a \<^typ>\<open>string\<close> holding its UTF-8 bytes. The
  configuration entries, instrument codes and decimal numerals the provider works on
  are ASCII; the Chinese captions of the tree view are fixed byte sequences that the
  program only hands to the host. \<^verbatim>\<open>String.prototype.trim\<close> removes white space and
  line terminators from both ends; the ASCII ones (TAB, LF, VT, FF, CR, SPACE) are
  modelled, the Unicode space separators beyond ASCII are not.
\<close>

definition js_space :: "char \<Rightarrow> bool" where
  "js_space c = ((of_char c :: nat) \<in> {9, 10, 11, 12, 13, 32})"

definition trim :: "string \<Rightarrow> string" where
  "trim s = rev (dropWhile js_space (rev (dropWhile js_space s)))"

text \<open>\<^verbatim>\<open>s.split(sep)\<close> for a one-character separator: never the empty array.\<close>

fun split_on :: "char \<Rightarrow> string \<Rightarrow> string list" where
  "split_on sep [] = [[]]"
| "split_on sep (c # cs) =
     (if c = sep then [] # split_on sep cs
      else (case split_on sep cs of
              [] \<Rightarrow> [[c]]
            | p # ps \<Rightarrow> (c # p) # ps))"

definition startsWith :: "string \<Rightarrow> string \<Rightarrow> bool" where
  "startsWith s p = (take (length p) s = p)"

definition is_digit :: "char \<Rightarrow> bool" where
  "is_digit c = (48 \<le> (of_char c :: nat) \<and> (of_char c :: nat) \<le> 57)"

definition digit_val :: "char \<Rightarrow> nat" where
  "digit_val c = of_char c - 48"

definition digit_char :: "nat \<Rightarrow> char" where
  "digit_char d = ''0123456789'' ! d"

definition digits_value :: "string \<Rightarrow> nat" where
  "digits_value ds = foldl (\<lambda>acc c. 10 * acc + digit_val c) 0 ds"

text \<open>
  The decimal numeral of a non-negative integer, as a template literal or
  \<^verbatim>\<open>Number.prototype.toFixed\<close> writes it (for integers below \<open>10^21\<close>, where
  JavaScript does not switch to exponent notation).
\<close>

fun string_of_nat :: "nat \<Rightarrow> string" where
  "string_of_nat n =
     (if n < 10 then [digit_char n]
      else string_of_nat (n div 10) @ [digit_char (n mod 10)])"

declare string_of_nat.simps [simp del]

definition string_of_int :: "int \<Rightarrow> string" where
  "string_of_int i =
     (if i < 0 then CHR ''-'' # string_of_nat (nat (- i)) else string_of_nat (nat i))"

subsection \<open>Numbers\<close>

text \<open>
  A JavaScript number is NaN, an infinity or a finite value. A finite value is kept
  as the exact rational it denotes: results of arithmetic are not rounded to binary64,
  and the two zeros are one. The comparisons and the operators follow ECMAScript on
  the special values.
\<close>

datatype jsnum = NaN | PosInf | NegInf | Fin rat

definition isNaN :: "jsnum \<Rightarrow> bool" where
  "isNaN x = (x = NaN)"

fun num_lt :: "jsnum \<Rightarrow> jsnum \<Rightarrow> bool" where
  "num_lt NaN y = False"
| "num_lt x NaN = False"
| "num_lt PosInf y = False"
| "num_lt x PosInf = True"
| "num_lt NegInf NegInf = False"
| "num_lt NegInf (Fin b) = True"
| "num_lt (Fin a) NegInf = False"
| "num_lt (Fin a) (Fin b) = (a < b)"

text \<open>\<^verbatim>\<open>x > y\<close> and \<^verbatim>\<open>x >= y\<close>: both false when an operand is NaN.\<close>

definition num_gt :: "jsnum \<Rightarrow> jsnum \<Rightarrow> bool" where
  "num_gt x y = num_lt y x"

definition num_ge :: "jsnum \<Rightarrow> jsnum \<Rightarrow> bool" where
  "num_ge x y = (x \<noteq> NaN \<and> y \<noteq> NaN \<and> \<not> num_lt x y)"

text \<open>Truthiness of a number (\<^verbatim>\<open>if (shares)\<close>): neither zero nor NaN.\<close>

definition num_truthy :: "jsnum \<Rightarrow> bool" where
  "num_truthy x = (x \<noteq> NaN \<and> x \<noteq> Fin 0)"

fun num_add :: "jsnum \<Rightarrow> jsnum \<Rightarrow> jsnum" where
  "num_add NaN y = NaN"
| "num_add x NaN = NaN"
| "num_add PosInf NegInf = NaN"
| "num_add NegInf PosInf = NaN"
| "num_add PosInf y = PosInf"
| "num_add NegInf y = NegInf"
| "num_add (Fin a) PosInf = PosInf"
| "num_add (Fin a) NegInf = NegInf"
| "num_add (Fin a) (Fin b) = Fin (a + b)"

text \<open>The product with an infinity: NaN for a zero factor, else the sign rule.\<close>

definition inf_times :: "bool \<Rightarrow> rat \<Rightarrow> jsnum" where
  "inf_times positive a =
     (if a = 0 then NaN else if (0 < a) = positive then PosInf else NegInf)"

fun num_mul :: "jsnum \<Rightarrow> jsnum \<Rightarrow> jsnum" where
  "num_mul NaN y = NaN"
| "num_mul x NaN = NaN"
| "num_mul PosInf PosInf = PosInf"
| "num_mul PosInf NegInf = NegInf"
| "num_mul NegInf PosInf = NegInf"
| "num_mul NegInf NegInf = PosInf"
| "num_mul PosInf (Fin b) = inf_times True b"
| "num_mul NegInf (Fin b) = inf_times False b"
| "num_mul (Fin a) PosInf = inf_times True a"
| "num_mul (Fin a) NegInf = inf_times False a"
| "num_mul (Fin a) (Fin b) = Fin (a * b)"

text \<open>
  \<^verbatim>\<open>Number.prototype.toFixed(f)\<close> (ECMAScript 21.1.3.3): a non-finite number prints
  as its name; otherwise the sign is split off, \<open>n\<close> is the integer for which
  \<open>n / 10^f\<close> is closest to the magnitude (the larger one on a tie), its numeral is
  padded with zeros to \<open>f + 1\<close> digits and the point is put before the last \<open>f\<close>
  digits. The branch for magnitudes from \<open>10^21\<close> on (exponent notation) is outside
  the model: no quote or holding has that size.
\<close>

definition pad_zeros :: "nat \<Rightarrow> string \<Rightarrow> string" where
  "pad_zeros f m =
     (if length m \<le> f then replicate (f + 1 - length m) CHR ''0'' @ m else m)"

definition point_before :: "nat \<Rightarrow> string \<Rightarrow> string" where
  "point_before f z = take (length z - f) z @ ''.'' @ drop (length z - f) z"

definition toFixed :: "nat \<Rightarrow> jsnum \<Rightarrow> string" where
  "toFixed f x =
     (case x of
        NaN \<Rightarrow> ''NaN''
      | PosInf \<Rightarrow> ''Infinity''
      | NegInf \<Rightarrow> ''-Infinity''
      | Fin r \<Rightarrow>
          (let s = (if r < 0 then ''-'' else '''');
               a = \<bar>r\<bar>;
               n = nat \<lfloor>a * 10 ^ f + 1 / 2\<rfloor>;
               m = string_of_nat n
           in if f \<noteq> 0 then s @ point_before f (pad_zeros f m) else s @ m))"

text \<open>
  \<^verbatim>\<open>parseFloat\<close> (ECMAScript 19.2.4): leading white space is skipped, the longest
  prefix that is a \<open>StrDecimalLiteral\<close> is read (a sign, then \<open>Infinity\<close> or digits
  with an optional fraction and an optional complete exponent part), and NaN is the
  result when there is none. The value read rounds to an infinity from
  \<open>2^1024 - 2^970\<close> on and to zero up to \<open>2^-1075\<close>, as binary64 does.
\<close>

definition split_sign :: "string \<Rightarrow> bool \<times> string" where
  "split_sign t =
     (case t of
        [] \<Rightarrow> (False, t)
      | c # cs \<Rightarrow>
          if c = CHR ''-'' then (True, cs)
          else if c = CHR ''+'' then (False, cs)
          else (False, t))"

definition exponent_part :: "string \<Rightarrow> int" where
  "exponent_part r =
     (case r of
        [] \<Rightarrow> 0
      | c # cs \<Rightarrow>
          if c = CHR ''e'' \<or> c = CHR ''E'' then
            (let (neg, ds) = split_sign cs;
                 es = takeWhile is_digit ds
             in if es = [] then 0
                else if neg then - int (digits_value es) else int (digits_value es))
          else 0)"

definition pow10 :: "int \<Rightarrow> rat" where
  "pow10 e = (if 0 \<le> e then 10 ^ nat e else 1 / 10 ^ nat (- e))"

definition round_mv :: "bool \<Rightarrow> rat \<Rightarrow> jsnum" where
  "round_mv neg mv =
     (if 2 ^ 1024 - 2 ^ 970 \<le> mv then (if neg then NegInf else PosInf)
      else if mv \<le> 1 / 2 ^ 1075 then Fin 0
      else Fin (if neg then - mv else mv))"

definition parseFloat :: "string \<Rightarrow> jsnum" where
  "parseFloat input =
     (let (neg, u) = split_sign (dropWhile js_space input)
      in if startsWith u ''Infinity'' then (if neg then NegInf else PosInf)
         else
           (let ip = takeWhile is_digit u;
                r1 = dropWhile is_digit u;
                (fp, r2) =
                  (case r1 of
                     [] \<Rightarrow> ([], r1)
                   | c # cs \<Rightarrow>
                       if c = CHR ''.''
                       then (takeWhile is_digit cs, dropWhile is_digit cs)
                       else ([], r1))
            in if ip = [] \<and> fp = [] then NaN
               else round_mv neg
                      (of_nat (digits_value (ip @ fp))
                         * pow10 (exponent_part r2 - int (length fp)))))"

subsection \<open>Maps\<close>

text \<open>
  A JavaScript \<^verbatim>\<open>Map\<close> keeps its entries in insertion order, and \<^verbatim>\<open>set\<close> on a key
  that is present replaces the value where the entry stands: an association list with
  one entry per key.
\<close>

type_synonym ('k, 'v) jsmap = "('k \<times> 'v) list"

fun map_get :: "('k, 'v) jsmap \<Rightarrow> 'k \<Rightarrow> 'v option" where
  "map_get [] k = None"
| "map_get ((k', v) # m) k = (if k' = k then Some v else map_get m k)"

fun map_set :: "'k \<Rightarrow> 'v \<Rightarrow> ('k, 'v) jsmap \<Rightarrow> ('k, 'v) jsmap" where
  "map_set k v [] = [(k, v)]"
| "map_set k v ((k', v') # m) =
     (if k' = k then (k, v) # m else (k', v') # map_set k v m)"

section \<open>The data of the stock view\<close>

text \<open>The interface \<^verbatim>\<open>StockData\<close>: every number is kept as the string that shows it.\<close>

record StockData =
  code :: string
  name :: string
  current :: string
  change :: string
  changePercent :: string
  previousClose :: string
  updateTime :: string

text \<open>
  One record of the provider's \<^verbatim>\<open>data.diff\<close> array, with the fields the request
  selects: the symbol \<open>f12\<close>, the market id \<open>f13\<close>, the name \<open>f14\<close> and the scaled
  integers \<open>f2\<close> (price), \<open>f3\<close> (percentage), \<open>f4\<close> (change) and \<open>f18\<close> (previous
  close). An array element may be \<^verbatim>\<open>null\<close>. The fields have the types the provider
  documents; a record with a field of another JSON type is outside the model.
\<close>

record RawQuote =
  f12 :: string
  f13 :: int
  f14 :: string
  f2 :: int
  f3 :: int
  f4 :: int
  f18 :: int

datatype TreeItemCollapsibleState = CollapsibleNone | Collapsed

datatype ThemeIcon = ThemeIcon string "string option"

record StockItem =
  label :: string
  collapsibleState :: TreeItemCollapsibleState
  description :: string
  iconPath :: "ThemeIcon option"
  stockCode :: "string option"
  isRoot :: bool
  tooltip :: string
  contextValue :: "string option"

text \<open>
  The constructor of \<^verbatim>\<open>StockItem\<close>: the tooltip is the empty string, and a root item
  with a code gets the context value.
\<close>

definition new_StockItem ::
  "string \<Rightarrow> TreeItemCollapsibleState \<Rightarrow> string \<Rightarrow> ThemeIcon option \<Rightarrow> string option
     \<Rightarrow> bool \<Rightarrow> StockItem" where
  "new_StockItem l st d icon c r =
     \<lparr>label = l, collapsibleState = st, description = d, iconPath = icon, stockCode = c,
      isRoot = r,
      tooltip = [],
      contextValue =
        (if r \<and> c \<noteq> None \<and> c \<noteq> Some [] then Some ''stockRoot'' else None)\<rparr>"

text \<open>
  The fields of \<^verbatim>\<open>StockDataProvider\<close>. \<open>fired\<close> counts the calls of
  \<^verbatim>\<open>_onDidChangeTreeData.fire()\<close>, the change notification the host observes.
\<close>

record Provider =
  stocksData :: "(string, StockData) jsmap"
  isLoading :: bool
  stockCodeList :: "string list"
  holdingShares :: "(string, jsnum) jsmap"
  lastUpdateTime :: string
  fired :: nat

text \<open>The provider as its field initialisers leave it, before the constructor's body.\<close>

definition initial_provider :: Provider where
  "initial_provider =
     \<lparr>stocksData = [], isLoading = True, stockCodeList = [], holdingShares = [],
      lastUpdateTime = [], fired = 0\<rparr>"

datatype js_error = TypeError | SyntaxError

text \<open>The captions of the tree view (UTF-8 bytes of the source's literals).\<close>

definition txt_index :: string where
  "txt_index = [CHR 0xE4, CHR 0xB8, CHR 0x8A, CHR 0xE8, CHR 0xAF, CHR 0x81, CHR 0xE6,
                CHR 0x8C, CHR 0x87, CHR 0xE6, CHR 0x95, CHR 0xB0]"

definition txt_loading :: string where
  "txt_loading = [CHR 0xE5, CHR 0x8A, CHR 0xA0, CHR 0xE8, CHR 0xBD, CHR 0xBD, CHR 0xE4,
                  CHR 0xB8, CHR 0xAD, CHR 0x2E, CHR 0x2E, CHR 0x2E]"

definition txt_failed :: string where
  "txt_failed = [CHR 0xE5, CHR 0x8A, CHR 0xA0, CHR 0xE8, CHR 0xBD, CHR 0xBD, CHR 0xE5,
                 CHR 0xA4, CHR 0xB1, CHR 0xE8, CHR 0xB4, CHR 0xA5]"

definition txt_profit :: string where
  "txt_profit = [CHR 0xE4, CHR 0xBB, CHR 0x8A, CHR 0xE6, CHR 0x97, CHR 0xA5, CHR 0xE7,
                 CHR 0x9B, CHR 0x88, CHR 0xE4, CHR 0xBA, CHR 0x8F]"

definition txt_updated :: string where
  "txt_updated = [CHR 0xE6, CHR 0x9B, CHR 0xB4, CHR 0xE6, CHR 0x96, CHR 0xB0, CHR 0xE6,
                  CHR 0x97, CHR 0xB6, CHR 0xE9, CHR 0x97, CHR 0xB4]"




definition arrow_up :: string where
  "arrow_up = [CHR 0xE2, CHR 0x86, CHR 0x91]"

definition arrow_down :: string where
  "arrow_down = [CHR 0xE2, CHR 0x86, CHR 0x93]"

definition tag_hk :: string where
  "tag_hk = [CHR 0x20, CHR 0xEF, CHR 0xBC, CHR 0xBB, CHR 0xE6, CHR 0xB8, CHR 0xAF,
             CHR 0xEF, CHR 0xBC, CHR 0xBD]"

definition tag_us :: string where
  "tag_us = [CHR 0x20, CHR 0xEF, CHR 0xBC, CHR 0xBB, CHR 0xE7, CHR 0xBE, CHR 0x8E,
             CHR 0xEF, CHR 0xBC, CHR 0xBD]"

definition tag_growth :: string where
  "tag_growth = [CHR 0x20, CHR 0xEF, CHR 0xBC, CHR 0xBB, CHR 0xE5, CHR 0x88, CHR 0x9B,
                 CHR 0xEF, CHR 0xBC, CHR 0xBD]"

definition tag_star :: string where
  "tag_star = [CHR 0x20, CHR 0xEF, CHR 0xBC, CHR 0xBB, CHR 0xE7, CHR 0xA7, CHR 0x91,
               CHR 0xEF, CHR 0xBC, CHR 0xBD]"

section \<open>The instrument registry: loadStockCodes\<close>

text \<open>
  The body of the loop over the trimmed, non-empty configuration entries. An entry is
  split at every colon; the first part, trimmed, is the code, and an entry whose code
  is empty adds nothing. When there is a second part, it is read by \<^verbatim>\<open>parseFloat\<close>
  and stored as the holding if it is not NaN and greater than zero. (\<^verbatim>\<open>split\<close> never
  returns the empty array, so the first branch of the case is never taken.)
\<close>

definition loadStockCodes_step ::
  "string list \<times> (string, jsnum) jsmap \<Rightarrow> string \<Rightarrow> string list \<times> (string, jsnum) jsmap" where
  "loadStockCodes_step acc entry =
     (case acc of (parsedCodes, holdings) \<Rightarrow>
        (case split_on CHR '':'' entry of
           [] \<Rightarrow> acc
         | p0 # rest \<Rightarrow>
             (let stockCode = trim p0
              in if stockCode \<noteq> [] then
                   (parsedCodes @ [stockCode],
                    (case rest of
                       [] \<Rightarrow> holdings
                     | p1 # _ \<Rightarrow>
                         (let shares = parseFloat (trim p1)
                          in if \<not> isNaN shares \<and> num_gt shares (Fin 0)
                             then map_set stockCode shares holdings
                             else holdings)))
                 else acc)))"

text \<open>
  \<^verbatim>\<open>loadStockCodes\<close>: the list is reset to the Shanghai index and the holdings are
  cleared; a configuration with a non-blank entry then replaces the list by the codes
  parsed from it. The configuration value read from the settings store is the
  argument \<open>customCodes\<close>.
\<close>

definition loadStockCodes :: "string list \<Rightarrow> Provider \<Rightarrow> Provider" where
  "loadStockCodes customCodes p =
     (let p0 = p\<lparr>stockCodeList := [''1.000001''], holdingShares := []\<rparr>
      in if customCodes \<noteq> [] then
           (let codes = filter (\<lambda>c. c \<noteq> []) (map trim customCodes)
            in if codes \<noteq> [] then
                 (case foldl loadStockCodes_step ([], holdingShares p0) codes of
                    (parsedCodes, holdings) \<Rightarrow>
                      p0\<lparr>holdingShares := holdings, stockCodeList := parsedCodes\<rparr>)
               else p0)
         else p0)"

section \<open>The view model: getRootItems and getDetailItems\<close>

text \<open>\<^verbatim>\<open>xs[i]\<close>: \<^verbatim>\<open>undefined\<close> beyond the end.\<close>

definition nth_opt :: "'a list \<Rightarrow> nat \<Rightarrow> 'a option" where
  "nth_opt xs i = (if i < length xs then Some (xs ! i) else None)"

text \<open>
  The market tag and icon colour of a code. The code is split at the dots;
  \<^verbatim>\<open>stockCode.startsWith\<close> is reached only for the market codes 0 and 1, and raises a
  TypeError there when the code has no second part.
\<close>

definition market_mark :: "string \<Rightarrow> js_error + string \<times> string" where
  "market_mark c =
     (let parts = split_on CHR ''.'' c;
          marketCode = nth_opt parts 0;
          stockCode = nth_opt parts 1
      in if marketCode = Some ''116'' then Inr (tag_hk, ''charts.purple'')
         else if marketCode = Some ''105'' \<or> marketCode = Some ''106''
                 \<or> marketCode = Some ''107'' then Inr (tag_us, ''charts.blue'')
         else if marketCode = Some ''0'' then
           (case stockCode of
              None \<Rightarrow> Inl TypeError
            | Some sc \<Rightarrow>
                if startsWith sc ''3'' then Inr (tag_growth, ''charts.orange'')
                else Inr ([], ''charts.green''))
         else if marketCode = Some ''1'' then
           (case stockCode of
              None \<Rightarrow> Inl TypeError
            | Some sc \<Rightarrow>
                if startsWith sc ''688'' then Inr (tag_star, ''charts.yellow'')
                else Inr ([], ''charts.green''))
         else Inr ([], ''charts.green''))"

definition failed_item :: "string \<Rightarrow> StockItem" where
  "failed_item c =
     new_StockItem c Collapsed txt_failed (Some (ThemeIcon ''error'' None)) (Some c) True"

text \<open>The row of one code of the list: the body of the first loop of \<^verbatim>\<open>getRootItems\<close>.\<close>

definition root_item :: "Provider \<Rightarrow> string \<Rightarrow> js_error + StockItem" where
  "root_item p c =
     (case map_get (stocksData p) c of
        None \<Rightarrow> Inr (failed_item c)
      | Some sd \<Rightarrow>
          (let changeNum = parseFloat (change sd);
               isUp = num_ge changeNum (Fin 0);
               arrow = (if isUp then arrow_up else arrow_down)
           in case market_mark c of
                Inl e \<Rightarrow> Inl e
              | Inr (marketTag, iconColor) \<Rightarrow>
                  Inr (new_StockItem (name sd) Collapsed
                         (current sd @ '' '' @ arrow @ '' '' @ changePercent sd @ ''%''
                            @ marketTag)
                         (if iconColor \<noteq> []
                          then Some (ThemeIcon ''circle-filled'' (Some iconColor)) else None)
                         (Some c) True)))"

fun root_items :: "Provider \<Rightarrow> string list \<Rightarrow> js_error + StockItem list" where
  "root_items p [] = Inr []"
| "root_items p (c # cs) =
     (case root_item p c of
        Inl e \<Rightarrow> Inl e
      | Inr item \<Rightarrow>
          (case root_items p cs of
             Inl e \<Rightarrow> Inl e
           | Inr items \<Rightarrow> Inr (item # items)))"

text \<open>
  The body of the loop over the entries of the holdings map: a held code with a
  cached quote and a positive share count sets \<open>hasHoldings\<close> and adds
  \<open>change \<times> shares\<close> to \<open>totalProfitLoss\<close>.
\<close>

definition add_profit ::
  "(string, StockData) jsmap \<Rightarrow> jsnum \<times> bool \<Rightarrow> string \<times> jsnum \<Rightarrow> jsnum \<times> bool" where
  "add_profit cache acc entry =
     (case acc of (totalProfitLoss, hasHoldings) \<Rightarrow>
        (case entry of (c, shares) \<Rightarrow>
           (case map_get cache c of
              None \<Rightarrow> acc
            | Some sd \<Rightarrow>
                if num_gt shares (Fin 0)
                then (num_add totalProfitLoss (num_mul (parseFloat (change sd)) shares), True)
                else acc)))"

text \<open>A profit or loss as it is shown: two decimals, a plus sign when it is not negative.\<close>

definition profit_text :: "jsnum \<Rightarrow> string" where
  "profit_text x = (if num_ge x (Fin 0) then ''+'' @ toFixed 2 x else toFixed 2 x)"

definition profit_item :: "jsnum \<Rightarrow> StockItem" where
  "profit_item x =
     new_StockItem txt_profit CollapsibleNone (profit_text x)
       (Some (ThemeIcon (if num_ge x (Fin 0) then ''arrow-up'' else ''arrow-down'')
                (Some (if num_ge x (Fin 0) then ''charts.red'' else ''charts.green''))))
       None False"

definition time_item :: "string \<Rightarrow> StockItem" where
  "time_item t =
     new_StockItem txt_updated CollapsibleNone t (Some (ThemeIcon ''clock'' None)) None False"

definition loading_item :: StockItem where
  "loading_item =
     new_StockItem txt_index Collapsed txt_loading (Some (ThemeIcon ''loading~spin'' None))
       (Some ''1.000001'') True"

definition getRootItems :: "Provider \<Rightarrow> js_error + StockItem list" where
  "getRootItems p =
     (if isLoading p then Inr [loading_item]
      else
        (case root_items p (stockCodeList p) of
           Inl e \<Rightarrow> Inl e
         | Inr items \<Rightarrow>
             (case foldl (add_profit (stocksData p)) (Fin 0, False) (holdingShares p) of
                (totalProfitLoss, hasHoldings) \<Rightarrow>
                  Inr (items
                       @ (if hasHoldings then [profit_item totalProfitLoss] else [])
                       @ (if lastUpdateTime p \<noteq> [] then [time_item (lastUpdateTime p)]
                          else [])))))"


section \<open>The quote fetcher: fetchAllStockData and fetchBatchStocks\<close>

text \<open>
  The quote built from one record of the response: the body of the loop of
  \<^verbatim>\<open>fetchBatchStocks\<close>. Hong Kong (116) and US (105, 106, 107) prices are scaled by
  1000 and shown with three decimals, all others by 100 with two; the percentage is
  scaled by 100 with two decimals for every market.
\<close>

definition quote_of :: "string \<Rightarrow> RawQuote \<Rightarrow> StockData" where
  "quote_of upd r =
     (let marketCode = f13 r;
          stockCode = string_of_int marketCode @ ''.'' @ f12 r;
          nm = (if f14 r \<noteq> [] then f14 r else stockCode);
          isHKorUS = (marketCode = 116 \<or> marketCode = 105 \<or> marketCode = 106
                        \<or> marketCode = 107);
          divisor = (if isHKorUS then 1000 else 100 :: rat);
          decimals = (if isHKorUS then 3 else 2 :: nat)
      in \<lparr>code = stockCode,
          name = nm,
          current = toFixed decimals (Fin (of_int (f2 r) / divisor)),
          change = toFixed decimals (Fin (of_int (f4 r) / divisor)),
          changePercent = toFixed 2 (Fin (of_int (f3 r) / 100)),
          previousClose = toFixed decimals (Fin (of_int (f18 r) / divisor)),
          updateTime = upd\<rparr>)"

definition store_quote ::
  "string \<Rightarrow> (string, StockData) jsmap \<Rightarrow> RawQuote option \<Rightarrow> (string, StockData) jsmap" where
  "store_quote upd cache rec =
     (case rec of
        None \<Rightarrow> cache
      | Some r \<Rightarrow> map_set (code (quote_of upd r)) (quote_of upd r) cache)"

text \<open>
  What a request ends with. The body of a response is given by what
  \<^verbatim>\<open>JSON.parse\<close> and the test of \<^verbatim>\<open>jsonData.data.diff\<close> make of it: text that is not
  JSON, JSON without the collection, a collection that cannot be iterated, or the
  array of records.
\<close>

datatype ResponseBody =
  NotJson | NoDiff | DiffNotIterable | Diff "RawQuote option list"

datatype Response = RequestError | ResponseEnd ResponseBody

text \<open>The \<^verbatim>\<open>try\<close> block of the \<^verbatim>\<open>end\<close> handler: \<open>Inl\<close> is the exception it raises.\<close>

definition parse_response ::
  "ResponseBody \<Rightarrow> string \<Rightarrow> (string, StockData) jsmap \<Rightarrow> js_error + (string, StockData) jsmap" where
  "parse_response body upd cache =
     (case body of
        NotJson \<Rightarrow> Inl SyntaxError
      | NoDiff \<Rightarrow> Inr cache
      | DiffNotIterable \<Rightarrow> Inl TypeError
      | Diff stocks \<Rightarrow> Inr (foldl (store_quote upd) cache stocks))"

text \<open>The completion callback that \<^verbatim>\<open>fetchAllStockData\<close> passes on.\<close>

definition callback :: "Provider \<Rightarrow> Provider" where
  "callback p = p\<lparr>isLoading := False, fired := fired p + 1\<rparr>"

text \<open>
  The handlers of \<^verbatim>\<open>fetchBatchStocks\<close>, run when the request ends: the \<^verbatim>\<open>error\<close>
  handler calls the callback; the \<^verbatim>\<open>end\<close> handler runs the \<^verbatim>\<open>try\<close> block, catches
  what it raises, and calls the callback.
\<close>

definition fetchBatchStocks_done :: "Response \<Rightarrow> string \<Rightarrow> Provider \<Rightarrow> Provider" where
  "fetchBatchStocks_done resp upd p =
     (case resp of
        RequestError \<Rightarrow> callback p
      | ResponseEnd body \<Rightarrow>
          (case parse_response body upd (stocksData p) of
             Inl e \<Rightarrow> callback p
           | Inr cache \<Rightarrow> callback (p\<lparr>stocksData := cache\<rparr>)))"

fun join_comma :: "string list \<Rightarrow> string" where
  "join_comma [] = []"
| "join_comma [x] = x"
| "join_comma (x # y # ys) = x @ '','' @ join_comma (y # ys)"

record Request =
  url :: string
  requestTime :: string

definition batch_url :: "string list \<Rightarrow> string" where
  "batch_url codes =
     ''http://push2.eastmoney.com/api/qt/ulist.np/get?secids='' @ join_comma codes
       @ ''&fields=f12,f13,f14,f2,f4,f3,f18''"

text \<open>
  The synchronous part of \<^verbatim>\<open>fetchAllStockData\<close>, up to the return of \<^verbatim>\<open>http.get\<close>:
  with an empty list it clears the loading flag and notifies at once; otherwise it
  stores the time \<open>now\<close> of the clock as the last update time, clears the cache and
  leaves one request in flight.
\<close>

definition fetchAllStockData_sync :: "string \<Rightarrow> Provider \<Rightarrow> Provider \<times> Request option" where
  "fetchAllStockData_sync now p =
     (if stockCodeList p = [] then (callback p, None)
      else (p\<lparr>lastUpdateTime := now, stocksData := []\<rparr>,
            Some \<lparr>url = batch_url (stockCodeList p), requestTime = now\<rparr>))"

text \<open>A whole cycle with no other event between its start and the end of its request.\<close>

definition fetchAllStockData :: "string \<Rightarrow> Response \<Rightarrow> Provider \<Rightarrow> Provider" where
  "fetchAllStockData now resp p =
     (case fetchAllStockData_sync now p of
        (p1, None) \<Rightarrow> p1
      | (p1, Some rq) \<Rightarrow> fetchBatchStocks_done resp (requestTime rq) p1)"

definition refresh :: "string list \<Rightarrow> string \<Rightarrow> Response \<Rightarrow> Provider \<Rightarrow> Provider" where
  "refresh customCodes now resp p = fetchAllStockData now resp (loadStockCodes customCodes p)"

section \<open>The holdings updater: updateHoldingShares\<close>

text \<open>
  The body of the loop over the stored entries: blank entries are skipped, an entry
  for the target code is replaced, any other entry is pushed trimmed. The share count
  is a non-negative integer.
\<close>

definition holding_entry :: "string \<Rightarrow> nat \<Rightarrow> string" where
  "holding_entry target shares = target @ '':'' @ string_of_nat shares"

definition updateHoldingShares_step ::
  "string \<Rightarrow> nat \<Rightarrow> string list \<times> bool \<Rightarrow> string \<Rightarrow> string list \<times> bool" where
  "updateHoldingShares_step target shares acc entry =
     (case acc of (newCodes, found) \<Rightarrow>
        (let trimmedCode = trim entry
         in if trimmedCode = [] then acc
            else
              (case split_on CHR '':'' trimmedCode of
                 [] \<Rightarrow> acc
               | p0 # _ \<Rightarrow>
                   (let codeOnly = trim p0
                    in if codeOnly = target then
                         (if 0 < shares then (newCodes @ [holding_entry target shares], True)
                          else (newCodes @ [target], True))
                       else (newCodes @ [trimmedCode], found)))))"

text \<open>The list that \<^verbatim>\<open>updateHoldingShares\<close> writes to the settings store.\<close>

definition updateHoldingShares_codes :: "string list \<Rightarrow> string \<Rightarrow> nat \<Rightarrow> string list" where
  "updateHoldingShares_codes customCodes target shares =
     (case foldl (updateHoldingShares_step target shares) ([], False) customCodes of
        (newCodes, found) \<Rightarrow>
          if \<not> found \<and> 0 < shares then newCodes @ [holding_entry target shares]
          else newCodes)"

text \<open>
  \<^verbatim>\<open>updateHoldingShares\<close>: the new configuration, and the provider after the
  \<^verbatim>\<open>refresh\<close> that follows the write.
\<close>

definition updateHoldingShares ::
  "string list \<Rightarrow> string \<Rightarrow> nat \<Rightarrow> string \<Rightarrow> Response \<Rightarrow> Provider \<Rightarrow> string list \<times> Provider" where
  "updateHoldingShares customCodes target shares now resp p =
     (let newCodes = updateHoldingShares_codes customCodes target shares
      in (newCodes, refresh newCodes now resp p))"

section \<open>Reference notions for the properties\<close>

subsection \<open>Decimal numerals\<close>





definition is_finite :: "jsnum \<Rightarrow> bool" where
  "is_finite x = (case x of Fin r \<Rightarrow> True | _ \<Rightarrow> False)"

subsection \<open>Holdings and rows\<close>

text \<open>
  The registry invariant: every held code is in the instrument list, with a share
  count greater than zero.
\<close>

definition holdings_ok :: "Provider \<Rightarrow> bool" where
  "holdings_ok p =
     list_all (\<lambda>(c, shares). c \<in> set (stockCodeList p) \<and> num_gt shares (Fin 0))
       (holdingShares p)"






subsection \<open>Reachable states\<close>

text \<open>
  The states of the provider: its fields as initialised, and from any state a reload
  of the configuration, the synchronous start of a cycle, and the end of a request.
  Cycles may overlap.
\<close>

inductive reachable :: "Provider \<Rightarrow> bool" where
  reach_init: "reachable initial_provider"
| reach_load: "reachable p \<Longrightarrow> reachable (loadStockCodes customCodes p)"
| reach_sync: "reachable p \<Longrightarrow> reachable (fst (fetchAllStockData_sync now p))"
| reach_done: "reachable p \<Longrightarrow> reachable (fetchBatchStocks_done resp upd p)"

subsection \<open>Sample data\<close>

definition sample_index :: RawQuote where
  "sample_index =
     \<lparr>f12 = ''000001'', f13 = 1, f14 = ''SSE'', f2 = 312345, f3 = - 12, f4 = - 380,
      f18 = 312725\<rparr>"

definition sample_hk :: RawQuote where
  "sample_hk =
     \<lparr>f12 = ''00700'', f13 = 116, f14 = ''TENCENT'', f2 = 312345, f3 = 150, f4 = 4600,
      f18 = 307745\<rparr>"

definition sample_config :: "string list" where
  "sample_config = [''1.000001'', ''116.00700:100'']"

definition sample_batch :: Response where
  "sample_batch = ResponseEnd (Diff [Some sample_index, None, Some sample_hk])"

text \<open>The provider after its constructor and the end of the first request.\<close>

definition sample_provider :: Provider where
  "sample_provider = refresh sample_config ''09:30:00'' sample_batch initial_provider"

subsection \<open>The accumulator of the registry loop\<close>

text \<open>Every holding collected so far belongs to a code collected so far and is positive.\<close>

definition step_ok :: "string list \<times> (string, jsnum) jsmap \<Rightarrow> bool" where
  "step_ok acc =
     (\<forall>(c, shares) \<in> set (snd acc). c \<in> set (fst acc) \<and> num_gt shares (Fin 0))"

subsection \<open>Entries of the configuration\<close>

text \<open>The code of a configuration entry: its first part, trimmed.\<close>

definition entry_code :: "string \<Rightarrow> string" where
  "entry_code e = (case split_on CHR '':'' (trim e) of [] \<Rightarrow> [] | p0 # _ \<Rightarrow> trim p0)"

text \<open>
  What a non-blank entry becomes when the holding of \<open>target\<close> is set to \<open>shares\<close>:
  an entry of the target is rewritten, any other entry is kept, trimmed.
\<close>

definition rewritten_entry :: "string \<Rightarrow> nat \<Rightarrow> string \<Rightarrow> string" where
  "rewritten_entry target shares e =
     (if entry_code e = target
      then (if 0 < shares then holding_entry target shares else target)
      else trim e)"

definition names_target :: "string \<Rightarrow> string \<Rightarrow> bool" where
  "names_target target e = (trim e \<noteq> [] \<and> entry_code e = target)"

subsection \<open>Markets\<close>


subsection \<open>Cycles\<close>





section \<open>Evaluation rules\<close>

text \<open>Rules that let the simplifier run the definitions on concrete inputs.\<close>

lemma string_of_nat_small: "n < 10 \<Longrightarrow> string_of_nat n = [digit_char n]"
  by (simp add: string_of_nat.simps)

lemma string_of_nat_large:
  "10 \<le> n \<Longrightarrow> string_of_nat n = string_of_nat (n div 10) @ [digit_char (n mod 10)]"
  by (subst string_of_nat.simps) simp

lemma floor_rat_numeral_div:
  "\<lfloor>(numeral a :: rat) / numeral b\<rfloor> = numeral a div numeral b"
  by (metis floor_divide_of_int_eq of_int_numeral)

lemma replicate_num: "replicate (numeral k) x = x # replicate (pred_numeral k) x"
  by (simp add: numeral_eq_Suc)

lemma round_mv_mid:
  assumes "1 / 10 ^ 6 \<le> mv" and "mv \<le> 10 ^ 21"
  shows "round_mv neg mv = Fin (if neg then - mv else mv)"
proof -
  have "(10::rat) ^ 21 < 2 ^ 1024 - 2 ^ 970" by simp
  moreover have "(1::rat) / 2 ^ 1075 < 1 / 10 ^ 6" by simp
  ultimately show ?thesis using assms by (simp add: round_mv_def)
qed

lemma round_mv_zero: "round_mv neg 0 = Fin 0"
proof -
  have "\<not> (2::rat) ^ 1024 - 2 ^ 970 \<le> 0" by simp
  then show ?thesis by (simp add: round_mv_def)
qed

lemmas js_eval = floor_rat_numeral_div replicate_num round_mv_zero round_mv_mid
  toFixed_def pad_zeros_def point_before_def string_of_nat_small string_of_nat_large
  digit_char_def parseFloat_def split_sign_def js_space_def startsWith_def is_digit_def
  digits_value_def digit_val_def exponent_part_def pow10_def trim_def string_of_int_def
  Let_def isNaN_def num_gt_def num_ge_def num_truthy_def inf_times_def

lemmas registry_eval = loadStockCodes_def loadStockCodes_step_def

section \<open>The registry\<close>

lemma split_on_not_Nil: "split_on sep s \<noteq> []"
  by (induction s) (auto split: list.splits)

lemma set_map_set: "set (map_set k v m) \<subseteq> insert (k, v) (set m)"
  by (induction m) (auto split: if_splits)

lemma map_set_all:
  assumes "\<forall>(c, s) \<in> set h. P c s" and "P k v"
  shows "\<forall>(c, s) \<in> set (map_set k v h). P c s"
  using assms set_map_set [of k v h] by blast

lemma num_gt_zero_iff: "num_gt x (Fin 0) \<longleftrightarrow> x = PosInf \<or> (\<exists>r. x = Fin r \<and> 0 < r)"
  by (cases x) (simp_all add: num_gt_def)

subsection \<open>The holdings stay within the list and positive\<close>

lemma step_ok_step:
  assumes "step_ok acc"
  shows "step_ok (loadStockCodes_step acc e)"
proof -
  obtain codes h where acc: "acc = (codes, h)" by (cases acc)
  show ?thesis
  proof (cases "split_on CHR '':'' e")
    case Nil
    then show ?thesis using assms acc by (simp add: loadStockCodes_step_def)
  next
    case (Cons p0 rest)
    note parts = Cons
    show ?thesis
    proof (cases "trim p0 = []")
      case True
      then show ?thesis using assms acc parts by (simp add: loadStockCodes_step_def)
    next
      case False
      have old: "\<forall>(c, shares) \<in> set h. c \<in> set (codes @ [trim p0]) \<and> num_gt shares (Fin 0)"
        using assms acc by (auto simp: step_ok_def)
      show ?thesis
      proof (cases rest)
        case Nil
        then show ?thesis using old acc parts False
          by (simp add: loadStockCodes_step_def step_ok_def)
      next
        case (Cons p1 more)
        define v where "v = parseFloat (trim p1)"
        show ?thesis
        proof (cases "\<not> isNaN v \<and> num_gt v (Fin 0)")
          case True
          have res: "loadStockCodes_step acc e = (codes @ [trim p0], map_set (trim p0) v h)"
            using acc parts False Cons True
            by (simp add: loadStockCodes_step_def Let_def v_def)
          have "\<forall>(c, shares) \<in> set (map_set (trim p0) v h).
                  c \<in> set (codes @ [trim p0]) \<and> num_gt shares (Fin 0)"
            by (rule map_set_all [OF old]) (use True in simp)
          then show ?thesis unfolding res step_ok_def by simp
        next
          case F: False
          have res: "loadStockCodes_step acc e = (codes @ [trim p0], h)"
            using acc parts False Cons F
            by (auto simp add: loadStockCodes_step_def Let_def v_def)
          show ?thesis unfolding res step_ok_def using old by simp
        qed
      qed
    qed
  qed
qed

lemma step_ok_foldl: "step_ok acc \<Longrightarrow> step_ok (foldl loadStockCodes_step acc es)"
  by (induction es arbitrary: acc) (simp_all add: step_ok_step)

lemma holdings_ok_load: "holdings_ok (loadStockCodes cfg p)"
proof -
  define es where "es = filter (\<lambda>c. c \<noteq> []) (map trim cfg)"
  obtain codes h where f: "foldl loadStockCodes_step ([], []) es = (codes, h)"
    by (cases "foldl loadStockCodes_step ([], []) es")
  have "step_ok (foldl loadStockCodes_step ([], []) es)"
    by (rule step_ok_foldl) (simp add: step_ok_def)
  then have ok: "list_all (\<lambda>(c, shares). c \<in> set codes \<and> num_gt shares (Fin 0)) h"
    unfolding f step_ok_def list_all_iff by simp
  show ?thesis
    using ok f by (simp add: loadStockCodes_def holdings_ok_def Let_def es_def)
qed

lemma holdings_ok_callback: "holdings_ok (callback p) = holdings_ok p"
  by (simp add: holdings_ok_def callback_def)

lemma holdings_ok_sync: "holdings_ok p \<Longrightarrow> holdings_ok (fst (fetchAllStockData_sync now p))"
  by (cases "stockCodeList p = []")
     (simp_all add: fetchAllStockData_sync_def holdings_ok_callback, simp add: holdings_ok_def)

lemma holdings_ok_cache: "holdings_ok (p\<lparr>stocksData := c\<rparr>) = holdings_ok p"
  by (simp add: holdings_ok_def)

lemma holdings_ok_done: "holdings_ok p \<Longrightarrow> holdings_ok (fetchBatchStocks_done resp upd p)"
  by (simp add: fetchBatchStocks_done_def holdings_ok_callback holdings_ok_cache
           split: Response.splits sum.splits)

lemma holdings_ok_fetch:
  assumes "holdings_ok p"
  shows "holdings_ok (fetchAllStockData now resp p)"
proof -
  obtain p1 rq where sync: "fetchAllStockData_sync now p = (p1, rq)"
    by (cases "fetchAllStockData_sync now p")
  have p1: "holdings_ok p1" using holdings_ok_sync [OF assms, of now] sync by simp
  show ?thesis
    by (cases rq) (simp_all add: fetchAllStockData_def sync p1 holdings_ok_done)
qed

lemma holdings_ok_reachable: "reachable p \<Longrightarrow> holdings_ok p"
proof (induction rule: reachable.induct)
  case reach_init
  show ?case by (simp add: holdings_ok_def initial_provider_def)
next
  case (reach_load p customCodes)
  show ?case by (rule holdings_ok_load)
next
  case (reach_sync p now)
  then show ?case by (simp add: holdings_ok_sync)
next
  case (reach_done p resp upd)
  then show ?case by (simp add: holdings_ok_done)
qed

lemma reachable_fetch:
  assumes "reachable p"
  shows "reachable (fetchAllStockData now resp p)"
proof -
  obtain p1 rq where sync: "fetchAllStockData_sync now p = (p1, rq)"
    by (cases "fetchAllStockData_sync now p")
  have p1: "reachable p1" using reach_sync [OF assms, of now] sync by simp
  show ?thesis
    by (cases rq) (simp_all add: fetchAllStockData_def sync p1 reach_done)
qed

lemma reachable_refresh: "reachable p \<Longrightarrow> reachable (refresh cfg now resp p)"
  unfolding refresh_def by (intro reachable_fetch reach_load)

lemma reachable_sample: "reachable sample_provider"
  unfolding sample_provider_def by (intro reachable_refresh reach_init)

text \<open>
  Claim C10. After every reload of the configuration, every key of the holdings map
  is an element of the instrument list and every stored share count is greater than
  zero. The same holds after a holdings update with the reload and the cycle that
  follow it, and in every state the provider can reach: the start and the end of a
  fetch cycle leave the registry alone.
\<close>

theorem holdings_invariant:
  "holdings_ok (loadStockCodes cfg p)
   \<and> holdings_ok (snd (updateHoldingShares cfg target shares now resp p))
   \<and> (reachable p \<longrightarrow> holdings_ok p)"
  by (simp add: holdings_ok_load holdings_ok_reachable updateHoldingShares_def Let_def
                refresh_def holdings_ok_fetch)

theorem holdings_invariant_witness:
  "reachable sample_provider \<and> holdings_ok sample_provider
   \<and> holdings_ok (loadStockCodes sample_config initial_provider)
   \<and> holdings_ok (snd (updateHoldingShares sample_config ''1.000001'' 5 ''09:31:00''
                         sample_batch sample_provider))"
  using holdings_invariant [of sample_config initial_provider]
    holdings_invariant [of sample_config sample_provider "''1.000001''" 5 "''09:31:00''"
      sample_batch]
    reachable_sample
  by simp

subsection \<open>Reloading twice\<close>

text \<open>
  Claim C9. Reloading the configuration twice in succession from the same
  configuration value gives the state that one reload gives, so the instrument
  list and the holdings map are the same; a reload does not touch the cache, and the
  root list computed after two reloads is the one computed after one.
\<close>

theorem reload_idempotent:
  "loadStockCodes cfg (loadStockCodes cfg p) = loadStockCodes cfg p
   \<and> stocksData (loadStockCodes cfg p) = stocksData p
   \<and> getRootItems (loadStockCodes cfg (loadStockCodes cfg p))
       = getRootItems (loadStockCodes cfg p)"
  by (simp add: loadStockCodes_def Let_def split: prod.splits)

theorem reload_idempotent_witness:
  "stockCodeList (loadStockCodes sample_config (loadStockCodes sample_config initial_provider))
     = [''1.000001'', ''116.00700'']
   \<and> holdingShares (loadStockCodes sample_config (loadStockCodes sample_config initial_provider))
     = [(''116.00700'', Fin 100)]
   \<and> loadStockCodes sample_config (loadStockCodes sample_config initial_provider)
     = loadStockCodes sample_config initial_provider"
proof -
  have once: "stockCodeList (loadStockCodes sample_config initial_provider)
                = [''1.000001'', ''116.00700'']
              \<and> holdingShares (loadStockCodes sample_config initial_provider)
                = [(''116.00700'', Fin 100)]"
    by (simp add: sample_config_def registry_eval js_eval)
  show ?thesis
    using reload_idempotent [of sample_config initial_provider] once by simp
qed

subsection \<open>The default instrument\<close>

text \<open>
  Claim C7. The default code \<open>1.000001\<close> is the list for an empty configuration and
  for one whose entries are all blank. A configuration with a non-blank entry whose
  code part is empty, such as \<open>:5\<close>, leaves the list empty instead: the parsed list
  replaces the default even when nothing was parsed. The root list of the cycle that
  follows has no row.
\<close>

theorem empty_code_entries_leave_no_default:
  "stockCodeList (loadStockCodes ['':5''] p) = []
   \<and> stockCodeList (loadStockCodes [''  ''] p) = [''1.000001'']
   \<and> stockCodeList (loadStockCodes [] p) = [''1.000001'']
   \<and> getRootItems (refresh ['':5''] now resp initial_provider) = Inr []"
  by (simp add: registry_eval js_eval refresh_def fetchAllStockData_def
                fetchAllStockData_sync_def callback_def getRootItems_def initial_provider_def)

subsection \<open>Which share counts are accepted\<close>

text \<open>
  Claim C6, as stated, fails: the share count \<open>Infinity\<close> is not finite, and it is
  stored as the holding.
\<close>

theorem infinite_holding_counterexample:
  "parseFloat ''Infinity'' = PosInf
   \<and> \<not> is_finite PosInf
   \<and> holdingShares (loadStockCodes [''1.000001:Infinity''] initial_provider)
       = [(''1.000001'', PosInf)]
   \<and> stockCodeList (loadStockCodes [''1.000001:Infinity''] initial_provider)
       = [''1.000001'']"
  by (simp add: registry_eval js_eval is_finite_def)

text \<open>
  Claim C6, amended. For an entry whose trimmed text has a first part with a
  non-empty code and a second part, the code is kept in the instrument list, and the
  second part is stored as the holding if and only if \<^verbatim>\<open>parseFloat\<close> of it (trimmed)
  is not NaN and is greater than zero: a positive finite number or positive infinity.
  Otherwise it is ignored and the code is kept without a holding. This is so for the
  loop body from any accumulator, and for a configuration that holds this one entry.
\<close>

theorem holding_accepted_iff:
  assumes "split_on CHR '':'' (trim e) = p0 # p1 # rest" and "trim p0 \<noteq> []"
  shows "loadStockCodes_step (codes, h) (trim e) =
           (codes @ [trim p0],
            if parseFloat (trim p1) \<noteq> NaN \<and> num_gt (parseFloat (trim p1)) (Fin 0)
            then map_set (trim p0) (parseFloat (trim p1)) h else h)
         \<and> stockCodeList (loadStockCodes [e] p) = [trim p0]
         \<and> holdingShares (loadStockCodes [e] p) =
             (if parseFloat (trim p1) \<noteq> NaN \<and> num_gt (parseFloat (trim p1)) (Fin 0)
              then [(trim p0, parseFloat (trim p1))] else [])
         \<and> (num_gt (parseFloat (trim p1)) (Fin 0) \<longleftrightarrow>
              parseFloat (trim p1) = PosInf \<or> (\<exists>r. parseFloat (trim p1) = Fin r \<and> 0 < r))"
proof -
  have ne: "trim e \<noteq> []" using assms(1) by auto
  have step: "loadStockCodes_step (cs, hs) (trim e) =
           (cs @ [trim p0],
            if parseFloat (trim p1) \<noteq> NaN \<and> num_gt (parseFloat (trim p1)) (Fin 0)
            then map_set (trim p0) (parseFloat (trim p1)) hs else hs)" for cs hs
    using assms by (simp add: loadStockCodes_step_def Let_def isNaN_def)
  show ?thesis using ne step [of "[]" "[]"] step [of codes h] num_gt_zero_iff
    by (simp add: loadStockCodes_def Let_def)
qed

theorem holding_accepted_iff_witness:
  "split_on CHR '':'' (trim ''1.000001:10 '') = [''1.000001'', ''10'']
   \<and> trim ''1.000001'' \<noteq> []
   \<and> stockCodeList (loadStockCodes [''1.000001:10 ''] initial_provider) = [''1.000001'']
   \<and> holdingShares (loadStockCodes [''1.000001:10 ''] initial_provider)
       = [(''1.000001'', Fin 10)]"
proof -
  have a: "split_on CHR '':'' (trim ''1.000001:10 '') = ''1.000001'' # ''10'' # []"
    by (simp add: js_eval)
  have b: "trim ''1.000001'' \<noteq> []" by (simp add: js_eval)
  have c: "trim ''1.000001'' = ''1.000001''" by (simp add: js_eval)
  have d: "parseFloat (trim ''10'') = Fin 10" by (simp add: js_eval)
  show ?thesis
    using holding_accepted_iff [OF a b, of "[]" "[]" initial_provider] a b
    unfolding c d by (simp add: num_gt_def)
qed

text \<open>The entries of the specification's examples that carry no holding.\<close>

lemma rejected_share_counts:
  "holdingShares (loadStockCodes [''1.000001:-5''] p) = []"
  "stockCodeList (loadStockCodes [''1.000001:-5''] p) = [''1.000001'']"
  "holdingShares (loadStockCodes [''1.000001:abc''] p) = []"
  "stockCodeList (loadStockCodes [''1.000001:abc''] p) = [''1.000001'']"
  "holdingShares (loadStockCodes [''1.000001:0''] p) = []"
  by (simp_all add: registry_eval js_eval)

section \<open>The holdings updater\<close>

lemma update_step:
  "updateHoldingShares_step target shares (acc, found) e =
     (if trim e = [] then (acc, found)
      else (acc @ [rewritten_entry target shares e], found \<or> entry_code e = target))"
  using split_on_not_Nil [of "CHR '':''" "trim e"]
  by (cases "split_on CHR '':'' (trim e)")
     (auto simp: updateHoldingShares_step_def rewritten_entry_def entry_code_def Let_def)

lemma update_foldl:
  "foldl (updateHoldingShares_step target shares) (acc, found) cfg =
     (acc @ map (rewritten_entry target shares) (filter (\<lambda>e. trim e \<noteq> []) cfg),
      found \<or> list_ex (names_target target) cfg)"
proof (induction cfg arbitrary: acc found)
  case Nil
  show ?case by simp
next
  case (Cons e cfg)
  show ?case
    by (simp add: update_step Cons.IH names_target_def)
qed

text \<open>
  Claim C5, as stated, fails for an entry with white space around it: the entry of
  another code is written back trimmed, not unchanged.
\<close>

theorem trimmed_entry_counterexample:
  "updateHoldingShares_codes ['' 0.000002:5''] ''1.000001'' 3 = [''0.000002:5'', ''1.000001:3'']
   \<and> entry_code '' 0.000002:5'' \<noteq> ''1.000001''
   \<and> '' 0.000002:5'' \<notin> set (updateHoldingShares_codes ['' 0.000002:5''] ''1.000001'' 3)"
  by (simp add: updateHoldingShares_codes_def updateHoldingShares_step_def entry_code_def holding_entry_def js_eval)

text \<open>
  Claim C5, amended. \<^verbatim>\<open>updateHoldingShares\<close> writes back the non-blank entries in
  their order (blank entries are dropped): every entry whose code is the target
  becomes \<open>code:shares\<close> when the share count is positive and the bare code when it
  is zero; every entry of another code is kept with its annotation, with the white
  space around it trimmed; and when no entry named the target and the share count is
  positive, \<open>code:shares\<close> is appended at the end.
\<close>

theorem update_rewrites_entries:
  "updateHoldingShares_codes cfg target shares =
     map (rewritten_entry target shares) (filter (\<lambda>e. trim e \<noteq> []) cfg)
     @ (if \<not> list_ex (names_target target) cfg \<and> 0 < shares
        then [holding_entry target shares] else [])"
  by (simp add: updateHoldingShares_codes_def update_foldl)

theorem update_rewrites_entries_witness:
  "updateHoldingShares_codes [''X:7'', '' 0.000002:5 ''] ''X'' 0 = [''X'', ''0.000002:5'']
   \<and> updateHoldingShares_codes [''X''] ''X'' 12 = [''X:12'']
   \<and> updateHoldingShares_codes [''X:7''] ''X'' 12 = [''X:12'']
   \<and> updateHoldingShares_codes [''0.000002:5'', ''  ''] ''X'' 12 = [''0.000002:5'', ''X:12'']
   \<and> updateHoldingShares_codes [''0.000002:5''] ''X'' 0 = [''0.000002:5'']"
  unfolding update_rewrites_entries
  by (simp add: rewritten_entry_def entry_code_def names_target_def holding_entry_def js_eval)

section \<open>Decimal numerals\<close>
























section \<open>The quote fetcher\<close>











section \<open>The refresh cycle\<close>












section \<open>The root list\<close>






















end
